theory Spec2Isabelle
  imports Main
begin

section \<open>The gateway firmware of Pico/main.py\<close>

text \<open>
  The firmware keeps all of its state in module-level variables, reads a monotonic
  millisecond clock, writes command bytes to a UART and hands status texts to an MQTT
  client. The embedding makes each of these explicit:
  \<^item> the module-level variables are the fields of the record \<open>sys\<close>;
  \<^item> every function that calls \<open>time.ticks_ms()\<close> takes the value read as its
    argument \<open>now\<close>;
  \<^item> \<open>uart_tx\<close> lists what was written to the UART, one entry for each call of
    \<open>send_uart_command\<close> or \<open>send_uart_command_with_data\<close>, holding the bytes of
    that call;
  \<^item> \<open>mqtt_out\<close> lists the (topic, message) pairs handed to \<open>safe_mqtt_publish\<close>,
    in order. Whether the broker connection then delivers them is the transport's
    business and is not modelled.
  Texts are kept as their UTF-8 bytes, so a \<open>string\<close> is both a Python \<open>bytes\<close> value
  and, when well formed, the \<open>str\<close> it decodes to.
\<close>

subsection \<open>Constants\<close>

definition topic_pub :: string where "topic_pub = ''home/arduino/events''"
definition topic_sub :: string where "topic_sub = ''home/arduino/command''"
definition topic_auth_request :: string where "topic_auth_request = ''home/arduino/auth_requests''"
definition topic_auth_response :: string where "topic_auth_response = ''home/arduino/auth_response''"

definition MSG_STATUS_READY :: nat where "MSG_STATUS_READY = 1"
definition MSG_MOTION_DETECTED :: nat where "MSG_MOTION_DETECTED = 2"
definition MSG_MOTION_STOPPED :: nat where "MSG_MOTION_STOPPED = 3"
definition MSG_RFID_DETECTED :: nat where "MSG_RFID_DETECTED = 4"
definition MSG_BUTTON_PRESSED :: nat where "MSG_BUTTON_PRESSED = 5"
definition MSG_RFID_READ_SUCCESS :: nat where "MSG_RFID_READ_SUCCESS = 6"
definition MSG_RFID_READ_FAILED :: nat where "MSG_RFID_READ_FAILED = 7"
definition MSG_RFID_WRITE_SUCCESS :: nat where "MSG_RFID_WRITE_SUCCESS = 8"
definition MSG_RFID_WRITE_FAILED :: nat where "MSG_RFID_WRITE_FAILED = 9"
definition MSG_RFID_WRITE_COMPLETED :: nat where "MSG_RFID_WRITE_COMPLETED = 10"
definition MSG_STATUS_UPDATE :: nat where "MSG_STATUS_UPDATE = 11"
definition MSG_HEARTBEAT :: nat where "MSG_HEARTBEAT = 12"

definition CMD_SET_LED_RGB :: nat where "CMD_SET_LED_RGB = 20"
definition CMD_SET_BUZZER_ON :: nat where "CMD_SET_BUZZER_ON = 21"
definition CMD_SET_BUZZER_OFF :: nat where "CMD_SET_BUZZER_OFF = 22"
definition CMD_RFID_WRITE_PREPARE :: nat where "CMD_RFID_WRITE_PREPARE = 23"
definition CMD_RFID_WRITE_CONFIRM :: nat where "CMD_RFID_WRITE_CONFIRM = 24"
definition CMD_RFID_NORMAL_MODE :: nat where "CMD_RFID_NORMAL_MODE = 25"

text \<open>
  A colour argument of \<open>set_led_color\<close>: a 3-tuple of integers, a string, or anything
  else (which the function replaces by \<open>LED_OFF\<close>).
\<close>

datatype led_color = ColorTuple int int int | ColorStr string | ColorOther

definition LED_OFF :: led_color where "LED_OFF = ColorTuple 0 0 0"
definition LED_RED :: led_color where "LED_RED = ColorTuple 255 0 0"
definition LED_GREEN :: led_color where "LED_GREEN = ColorTuple 0 255 0"
definition LED_ORANGE :: led_color where "LED_ORANGE = ColorTuple 255 165 0"

datatype SecurityState = READY | MOTION_DETECTED | ALARM_ACTIVE | ALARM_DISABLED | RFID_WRITE_MODE

definition alarm_disable_duration :: int where "alarm_disable_duration = 60000"
definition motion_grace_period :: int where "motion_grace_period = 5000"
definition arduino_timeout :: int where "arduino_timeout = 30000"
definition led_blink_interval :: int where "led_blink_interval = 200"

subsection \<open>The state\<close>

record sys =
  current_state :: SecurityState
  motion_start_time :: int
  alarm_disabled_time :: int
  current_rfid_secret :: "string option"
  manually_activated :: bool
  alarm_disable_end_time :: int
  alarm_disable_permanent :: bool
  last_arduino_heartbeat :: int
  arduino_connected :: bool
  led_blink_active :: bool
  led_blink_count :: int
  led_blink_max_count :: int
  led_blink_last_time :: int
  led_blink_is_on :: bool
  led_blink_color :: led_color
  uart_tx :: "string list"
  mqtt_out :: "(string \<times> string) list"

text \<open>The values the module assigns at load time, before the main loop starts.\<close>

definition initial_state :: sys where
  "initial_state =
     \<lparr> current_state = READY, motion_start_time = 0, alarm_disabled_time = 0,
       current_rfid_secret = None, manually_activated = False,
       alarm_disable_end_time = 0, alarm_disable_permanent = False,
       last_arduino_heartbeat = 0, arduino_connected = False,
       led_blink_active = False, led_blink_count = 0, led_blink_max_count = 0,
       led_blink_last_time = 0, led_blink_is_on = False, led_blink_color = LED_OFF,
       uart_tx = [], mqtt_out = [(topic_pub, ''PICO_READY'')] \<rparr>"

subsection \<open>The clock\<close>

text \<open>
  \<open>time.ticks_ms()\<close> counts milliseconds modulo a power of two and
  \<open>time.ticks_diff\<close> subtracts two readings on that ring, giving a signed value in
  \<open>[-TICKS_PERIOD/2, TICKS_PERIOD/2)\<close>. The period of the RP2 port is \<open>2^30\<close>.
\<close>

definition TICKS_PERIOD :: int where "TICKS_PERIOD = 2 ^ 30"

definition ticks_diff :: "int \<Rightarrow> int \<Rightarrow> int" where
  "ticks_diff a b = (a - b + TICKS_PERIOD div 2) mod TICKS_PERIOD - TICKS_PERIOD div 2"

subsection \<open>Python built-ins used by the firmware\<close>

text \<open>\<open>str(n)\<close> for an integer: decimal digits, with a minus sign when negative.\<close>

fun str_nat :: "nat \<Rightarrow> string" where
  "str_nat n = (if n < 10 then [char_of (48 + n)]
                else str_nat (n div 10) @ [char_of (48 + n mod 10)])"

declare str_nat.simps [simp del]

definition str_int :: "int \<Rightarrow> string" where
  "str_int i = (if i < 0 then CHR ''-'' # str_nat (nat (- i)) else str_nat (nat i))"

text \<open>The characters \<open>str.strip()\<close> and \<open>int()\<close> treat as white space.\<close>

definition is_space :: "char \<Rightarrow> bool" where
  "is_space c = (c = CHR '' '' \<or> c = CHR 0x09 \<or> c = CHR 0x0A \<or> c = CHR 0x0B
                 \<or> c = CHR 0x0C \<or> c = CHR 0x0D)"

definition py_strip :: "string \<Rightarrow> string" where
  "py_strip s = rev (dropWhile is_space (rev (dropWhile is_space s)))"

definition startswith :: "string \<Rightarrow> string \<Rightarrow> bool" where
  "startswith s p = (take (length p) s = p)"

text \<open>
  \<open>bytes.decode('utf-8')\<close> raises on input that is not well formed. The check is
  the one the MicroPython runtime makes: every lead byte is followed by the number of
  continuation bytes it announces.
\<close>

fun utf8_check_from :: "nat \<Rightarrow> string \<Rightarrow> bool" where
  "utf8_check_from need [] = (need = 0)"
| "utf8_check_from need (c # cs) =
     (if 0 < need
      then (if 128 \<le> (of_char c :: nat) \<and> (of_char c :: nat) < 192
            then utf8_check_from (need - 1) cs else False)
      else if 192 \<le> (of_char c :: nat)
      then (if 248 \<le> (of_char c :: nat) then False
            else utf8_check_from
                   (if (of_char c :: nat) < 224 then 1
                    else if (of_char c :: nat) < 240 then 2 else 3) cs)
      else if 128 \<le> (of_char c :: nat) then False
      else utf8_check_from 0 cs)"

definition utf8_check :: "string \<Rightarrow> bool" where
  "utf8_check bs = utf8_check_from 0 bs"

text \<open>
  A slice \<open>s[n:]\<close> of a \<open>str\<close> drops \<open>n\<close> characters, each of them a lead byte with
  its continuation bytes.
\<close>

definition is_cont :: "char \<Rightarrow> bool" where
  "is_cont c = (128 \<le> (of_char c :: nat) \<and> (of_char c :: nat) < 192)"

fun slice_from :: "nat \<Rightarrow> string \<Rightarrow> string" where
  "slice_from 0 s = s"
| "slice_from (Suc n) [] = []"
| "slice_from (Suc n) (c # cs) = slice_from n (dropWhile is_cont cs)"

text \<open>
  \<open>int(s)\<close> on a text: surrounding white space is skipped, a sign is accepted, and
  what remains must be a non-empty run of decimal digits and underscores; the
  MicroPython parser skips every underscore in the run and reads the digits. Anything
  else raises \<open>ValueError\<close>, here \<open>None\<close>.
\<close>

definition is_digit :: "char \<Rightarrow> bool" where
  "is_digit c = (48 \<le> (of_char c :: nat) \<and> (of_char c :: nat) \<le> 57)"

fun digits_value :: "int \<Rightarrow> string \<Rightarrow> int" where
  "digits_value acc [] = acc"
| "digits_value acc (c # cs) = digits_value (acc * 10 + (of_char c - 48)) cs"

definition parse_digits :: "string \<Rightarrow> int option" where
  "parse_digits s =
     (if s \<noteq> [] \<and> list_all (\<lambda>c. is_digit c \<or> c = CHR ''_'') s
      then Some (digits_value 0 (filter is_digit s))
      else None)"

definition py_int :: "string \<Rightarrow> int option" where
  "py_int s =
     (case py_strip s of
        [] \<Rightarrow> None
      | c # cs \<Rightarrow>
          if c = CHR ''-'' then map_option uminus (parse_digits cs)
          else if c = CHR ''+'' then parse_digits cs
          else parse_digits (c # cs))"

subsection \<open>Output: the UART and the MQTT client\<close>

definition safe_mqtt_publish :: "string \<Rightarrow> string \<Rightarrow> sys \<Rightarrow> sys" where
  "safe_mqtt_publish topic message s = s\<lparr>mqtt_out := mqtt_out s @ [(topic, message)]\<rparr>"

text \<open>The bytes of a frame with data: the opcode, a colon, the text, a line feed.\<close>

definition uart_frame :: "nat \<Rightarrow> string \<Rightarrow> string" where
  "uart_frame cmd data = char_of cmd # CHR '':'' # data @ [CHR 0x0A]"

definition send_uart_command :: "nat \<Rightarrow> sys \<Rightarrow> sys" where
  "send_uart_command cmd s = s\<lparr>uart_tx := uart_tx s @ [[char_of cmd]]\<rparr>"

definition send_uart_command_with_data :: "nat \<Rightarrow> string \<Rightarrow> sys \<Rightarrow> sys" where
  "send_uart_command_with_data cmd data s = s\<lparr>uart_tx := uart_tx s @ [uart_frame cmd data]\<rparr>"

definition clamp255 :: "int \<Rightarrow> int" where
  "clamp255 v = max 0 (min 255 v)"

fun rgb_data :: "led_color \<Rightarrow> string" where
  "rgb_data (ColorTuple red green blue) =
     str_int (clamp255 red) @ '','' @ str_int (clamp255 green) @ '','' @ str_int (clamp255 blue)"
| "rgb_data (ColorStr t) = t"
| "rgb_data ColorOther = ''0,0,0''"

definition set_led_color :: "led_color \<Rightarrow> sys \<Rightarrow> sys" where
  "set_led_color color s = send_uart_command_with_data CMD_SET_LED_RGB (rgb_data color) s"

subsection \<open>The LED blink driver\<close>

definition start_led_blink :: "int \<Rightarrow> led_color \<Rightarrow> int \<Rightarrow> sys \<Rightarrow> sys" where
  "start_led_blink now color blink_count s =
     (set_led_color color
        (s\<lparr>led_blink_active := True, led_blink_count := 0,
           led_blink_max_count := blink_count * 2, led_blink_last_time := now,
           led_blink_is_on := False, led_blink_color := color\<rparr>))
     \<lparr>led_blink_is_on := True\<rparr>"

definition update_led_blink :: "int \<Rightarrow> sys \<Rightarrow> sys" where
  "update_led_blink now s =
     (if \<not> led_blink_active s then s
      else if ticks_diff now (led_blink_last_time s) \<ge> led_blink_interval
      then (let s1 = s\<lparr>led_blink_count := led_blink_count s + 1, led_blink_last_time := now\<rparr>
            in if led_blink_count s1 \<ge> led_blink_max_count s1
               then (set_led_color LED_OFF s1)\<lparr>led_blink_active := False, led_blink_is_on := False\<rparr>
               else if led_blink_is_on s1
               then (set_led_color LED_OFF s1)\<lparr>led_blink_is_on := False\<rparr>
               else (set_led_color (led_blink_color s1) s1)\<lparr>led_blink_is_on := True\<rparr>)
      else s)"

subsection \<open>Motion and the alarm\<close>

definition handle_motion_detected :: "int \<Rightarrow> sys \<Rightarrow> sys" where
  "handle_motion_detected now s =
     (if current_state s = ALARM_DISABLED
      then safe_mqtt_publish topic_pub ''MOTION_DETECTED'' s
      else (let s1 = safe_mqtt_publish topic_pub ''MOTION_DETECTED'' s
            in if current_state s1 = ALARM_ACTIVE then s1
               else if current_state s1 = READY
               then set_led_color LED_ORANGE
                      (s1\<lparr>motion_start_time := now, current_state := MOTION_DETECTED\<rparr>)
               else s1))"

definition handle_motion_stopped :: "sys \<Rightarrow> sys" where
  "handle_motion_stopped s =
     (let s1 = safe_mqtt_publish topic_pub ''MOTION_STOPPED'' s
      in if current_state s1 = ALARM_DISABLED then s1
         else if current_state s1 = ALARM_ACTIVE then s1
         else if current_state s1 = MOTION_DETECTED
         then set_led_color LED_OFF (s1\<lparr>current_state := READY\<rparr>)
         else s1)"

definition activate_alarm :: "sys \<Rightarrow> sys" where
  "activate_alarm s =
     (if current_state s = ALARM_DISABLED then s
      else safe_mqtt_publish topic_pub ''ALARM_TRIGGERED''
             (set_led_color LED_RED
                (send_uart_command CMD_SET_BUZZER_ON
                   (s\<lparr>current_state := ALARM_ACTIVE, manually_activated := False\<rparr>))))"

definition check_motion_timeout :: "int \<Rightarrow> sys \<Rightarrow> sys" where
  "check_motion_timeout now s =
     (if current_state s = MOTION_DETECTED
      then (if ticks_diff now (motion_start_time s) > motion_grace_period
            then activate_alarm s else s)
      else s)"

subsection \<open>RFID authentication\<close>

definition handle_rfid_detected :: "string \<Rightarrow> sys \<Rightarrow> sys" where
  "handle_rfid_detected secret_key s =
     safe_mqtt_publish topic_auth_request (''AUTH_REQUEST:'' @ secret_key)
       (s\<lparr>current_rfid_secret := Some secret_key\<rparr>)"

definition handle_auth_success :: "int \<Rightarrow> sys \<Rightarrow> sys" where
  "handle_auth_success now s =
     (if manually_activated s \<and> current_state s = ALARM_ACTIVE
      then safe_mqtt_publish topic_pub ''AUTH_SUCCESS_BLOCKED''
             (safe_mqtt_publish topic_auth_request ''ACK_AUTH_SUCCESS'' s)
      else safe_mqtt_publish topic_pub ''ALARM_DISABLED_RFID''
             (safe_mqtt_publish topic_auth_request ''ACK_AUTH_SUCCESS''
                (set_led_color LED_GREEN
                   (send_uart_command CMD_SET_BUZZER_OFF
                      (s\<lparr>current_state := ALARM_DISABLED, alarm_disabled_time := now\<rparr>)))))"

definition handle_auth_failed :: "int \<Rightarrow> sys \<Rightarrow> sys" where
  "handle_auth_failed now s =
     safe_mqtt_publish topic_pub ''AUTH_FAILED''
       (safe_mqtt_publish topic_auth_request ''ACK_AUTH_FAILED''
          (start_led_blink now LED_RED 3 s))"

subsection \<open>Commands of the control plane\<close>

definition disable_alarm :: "sys \<Rightarrow> sys" where
  "disable_alarm s =
     safe_mqtt_publish topic_pub ''ACK_CMD_DISABLE_ALARM''
       (set_led_color LED_GREEN
          (send_uart_command CMD_SET_BUZZER_OFF
             (s\<lparr>current_state := ALARM_DISABLED\<rparr>)))"

definition activate_alarm_manual :: "sys \<Rightarrow> sys" where
  "activate_alarm_manual s =
     safe_mqtt_publish topic_pub ''ACK_CMD_ACTIVATE_ALARM''
       (safe_mqtt_publish topic_pub ''ALARM_TRIGGERED''
          (set_led_color LED_RED
             (send_uart_command CMD_SET_BUZZER_ON
                (s\<lparr>current_state := ALARM_ACTIVE, manually_activated := True,
                   alarm_disable_permanent := False, alarm_disable_end_time := 0\<rparr>))))"

definition disable_alarm_permanent :: "sys \<Rightarrow> sys" where
  "disable_alarm_permanent s =
     safe_mqtt_publish topic_pub ''ACK_CMD_DISABLE_ALARM''
       (set_led_color LED_GREEN
          (send_uart_command CMD_SET_BUZZER_OFF
             (s\<lparr>current_state := ALARM_DISABLED, manually_activated := False,
                alarm_disable_permanent := True, alarm_disable_end_time := 0\<rparr>)))"

definition disable_alarm_timed :: "int \<Rightarrow> int \<Rightarrow> sys \<Rightarrow> sys" where
  "disable_alarm_timed now minutes s =
     safe_mqtt_publish topic_pub ''ACK_CMD_DISABLE_ALARM''
       (set_led_color LED_GREEN
          (send_uart_command CMD_SET_BUZZER_OFF
             (s\<lparr>current_state := ALARM_DISABLED, manually_activated := False,
                alarm_disable_permanent := False,
                alarm_disable_end_time := now + minutes * 60 * 1000\<rparr>)))"

definition enable_alarm :: "sys \<Rightarrow> sys" where
  "enable_alarm s =
     safe_mqtt_publish topic_pub ''SECURITY_STATE:READY''
       (set_led_color LED_OFF
          (send_uart_command CMD_SET_BUZZER_OFF
             (s\<lparr>current_state := READY, manually_activated := False,
                alarm_disable_permanent := False, alarm_disable_end_time := 0\<rparr>)))"

definition reset_alarm :: "sys \<Rightarrow> sys" where
  "reset_alarm s =
     safe_mqtt_publish topic_pub ''SECURITY_STATE:READY''
       (safe_mqtt_publish topic_pub ''ALARM_RESET''
          (set_led_color LED_OFF
             (send_uart_command CMD_SET_BUZZER_OFF
                (s\<lparr>current_state := READY, manually_activated := False,
                   alarm_disable_permanent := False, alarm_disable_end_time := 0\<rparr>))))"

definition handle_button_pressed :: "sys \<Rightarrow> sys" where
  "handle_button_pressed s = reset_alarm s"

definition prepare_rfid_write_mode :: "string \<Rightarrow> sys \<Rightarrow> sys" where
  "prepare_rfid_write_mode secret_key s =
     safe_mqtt_publish topic_pub (''STATUS_RFID_WRITE_PREPARED:'' @ secret_key)
       (send_uart_command_with_data CMD_RFID_WRITE_PREPARE secret_key
          (s\<lparr>current_state := RFID_WRITE_MODE\<rparr>))"

definition confirm_rfid_write_mode :: "sys \<Rightarrow> sys" where
  "confirm_rfid_write_mode s =
     (if current_state s = RFID_WRITE_MODE
      then safe_mqtt_publish topic_pub ''STATUS_RFID_WRITE_ACTIVE''
             (send_uart_command CMD_RFID_WRITE_CONFIRM s)
      else safe_mqtt_publish topic_pub ''ERROR_RFID_WRITE_NOT_PREPARED'' s)"

definition initialize_rfid_write :: "sys \<Rightarrow> sys" where
  "initialize_rfid_write s =
     (if current_state s = RFID_WRITE_MODE
      then safe_mqtt_publish topic_pub ''ACK_CMD_RFID_WRITE_INITALIZE'' s
      else s)"

definition abort_operation :: "sys \<Rightarrow> sys" where
  "abort_operation s =
     safe_mqtt_publish topic_pub ''ACK_CMD_ABORT''
       (set_led_color LED_OFF
          (send_uart_command CMD_RFID_NORMAL_MODE
             (s\<lparr>current_state := READY\<rparr>)))"

text \<open>
  The MQTT callback. Everything runs inside \<open>try\<close>: a message that does not decode,
  or a minute count \<open>int()\<close> rejects, raises before any variable is written, and the
  handler only prints, so the state is the one before the call.
\<close>

definition sub_cb :: "int \<Rightarrow> string \<Rightarrow> string \<Rightarrow> sys \<Rightarrow> sys" where
  "sub_cb now topic msg s =
     (if \<not> utf8_check msg then s
      else if topic = topic_auth_response
      then (if msg = ''AUTH_SUCCESS'' then handle_auth_success now s
            else if msg = ''AUTH_FAILED'' then handle_auth_failed now s
            else s)
      else if msg = ''CMD_DISABLE_ALARM'' then disable_alarm s
      else if msg = ''CMD_ACTIVATE_ALARM'' then activate_alarm_manual s
      else if msg = ''CMD_RESET_ALARM'' then reset_alarm s
      else if msg = ''CMD_DISABLE_ALARM_PERMANENT'' then disable_alarm_permanent s
      else if startswith msg ''CMD_DISABLE_ALARM_TIMED:''
      then (case py_int (slice_from 25 msg) of
              None \<Rightarrow> s
            | Some minutes \<Rightarrow> disable_alarm_timed now minutes s)
      else if msg = ''CMD_ENABLE_ALARM'' then enable_alarm s
      else if startswith msg ''CMD_RFID_WRITE_PREPARE:''
      then prepare_rfid_write_mode (slice_from 23 msg) s
      else if msg = ''CMD_RFID_WRITE_CONFIRM'' then confirm_rfid_write_mode s
      else if msg = ''CMD_ABORT'' then abort_operation s
      else if msg = ''CMD_RFID_WRITE_INITALIZE'' then initialize_rfid_write s
      else s)"

subsection \<open>Timers of the main loop\<close>

definition check_alarm_timeout :: "int \<Rightarrow> sys \<Rightarrow> sys" where
  "check_alarm_timeout now s =
     (if current_state s = ALARM_DISABLED
      then (if alarm_disable_permanent s then s
            else if alarm_disable_end_time s > 0 \<and> now \<ge> alarm_disable_end_time s
            then enable_alarm s
            else if alarm_disable_end_time s = 0
                    \<and> ticks_diff now (alarm_disabled_time s) > alarm_disable_duration
            then safe_mqtt_publish topic_pub ''ALARM_REARMED''
                   (set_led_color LED_OFF (s\<lparr>current_state := READY\<rparr>))
            else s)
      else s)"

definition handle_arduino_heartbeat :: "int \<Rightarrow> sys \<Rightarrow> sys" where
  "handle_arduino_heartbeat now s =
     (let s1 = safe_mqtt_publish topic_pub ''ARDUINO_HEARTBEAT'' (s\<lparr>last_arduino_heartbeat := now\<rparr>)
      in if \<not> arduino_connected s1
         then safe_mqtt_publish topic_pub ''ARDUINO_CONNECTED'' (s1\<lparr>arduino_connected := True\<rparr>)
         else s1)"

definition check_arduino_connection :: "int \<Rightarrow> sys \<Rightarrow> sys" where
  "check_arduino_connection now s =
     (if arduino_connected s
      then (if ticks_diff now (last_arduino_heartbeat s) > arduino_timeout
            then safe_mqtt_publish topic_pub ''ARDUINO_DISCONNECTED'' (s\<lparr>arduino_connected := False\<rparr>)
            else s)
      else s)"

text \<open>
  One pass of the main loop over its timers, in the order of the loop body:
  the motion grace period, the alarm re-enable, the device's liveness, the blink driver.
  The four functions read the clock one after the other; the pass is taken to be
  short enough for them to read the same value.
\<close>

definition check_timers :: "int \<Rightarrow> sys \<Rightarrow> sys" where
  "check_timers now s =
     update_led_blink now
       (check_arduino_connection now
          (check_alarm_timeout now
             (check_motion_timeout now s)))"

subsection \<open>Messages of the device\<close>

text \<open>
  \<open>process_arduino_message\<close> has no \<open>global\<close> declaration, so its assignment
  \<open>current_state = SecurityState.READY\<close> in the branch of \<open>MSG_RFID_WRITE_COMPLETED\<close>
  binds a variable local to the call; the module's \<open>current_state\<close> is not written.
  The branch therefore only publishes and switches the LED off.
\<close>

definition process_arduino_message :: "int \<Rightarrow> nat \<Rightarrow> sys \<Rightarrow> sys" where
  "process_arduino_message now msg_code s =
     (if msg_code = MSG_STATUS_READY then safe_mqtt_publish topic_pub ''STATUS_READY'' s
      else if msg_code = MSG_MOTION_DETECTED then handle_motion_detected now s
      else if msg_code = MSG_MOTION_STOPPED then handle_motion_stopped s
      else if msg_code = MSG_RFID_DETECTED then s
      else if msg_code = MSG_BUTTON_PRESSED then handle_button_pressed s
      else if msg_code = MSG_RFID_WRITE_SUCCESS
      then safe_mqtt_publish topic_pub ''STATUS_RFID_WRITE_SUCCESS'' s
      else if msg_code = MSG_RFID_WRITE_FAILED
      then safe_mqtt_publish topic_pub ''STATUS_RFID_WRITE_FAILED'' s
      else if msg_code = MSG_RFID_WRITE_COMPLETED
      then set_led_color LED_OFF (safe_mqtt_publish topic_pub ''STATUS_RFID_WRITE_COMPLETED'' s)
      else if msg_code = MSG_HEARTBEAT then handle_arduino_heartbeat now s
      else if msg_code = MSG_STATUS_UPDATE then s
      else s)"

text \<open>The dispatch of a frame with data, as the main loop does it after parsing.\<close>

definition process_data_message :: "int \<Rightarrow> nat \<Rightarrow> string \<Rightarrow> sys \<Rightarrow> sys" where
  "process_data_message now msg_code data s =
     (if msg_code = MSG_RFID_READ_SUCCESS then handle_rfid_detected data s
      else if msg_code = MSG_RFID_READ_FAILED then safe_mqtt_publish topic_pub ''RFID_READ_FAILED'' s
      else if msg_code = MSG_STATUS_UPDATE
      then safe_mqtt_publish topic_pub (''ARDUINO_STATUS:'' @ data) s
      else if msg_code = MSG_HEARTBEAT then handle_arduino_heartbeat now s
      else s)"

subsection \<open>The frame decoder of the main loop\<close>

text \<open>
  What the UART delivers, as the loop sees it: a byte, or \<open>Idle\<close>, a pause in which
  no byte arrives for at least the 10 ms the loop waits after an opcode. Bytes that
  follow each other without an \<open>Idle\<close> arrive within that window, and nothing
  arrives after the end of the list.
\<close>

datatype rx_item = Byte char | Idle

datatype DeviceMessage = Simple nat | WithData nat string

text \<open>
  The body of the branch for \<open>'\n'\<close>, entered when the buffer holds a colon:
  \<open>split(b':', 1)\<close> cuts at the first colon, the first byte of the head is the message
  code and the tail is decoded and stripped. An empty head is an invalid format and a
  tail that does not decode raises inside \<open>try\<close>: both yield no message.
\<close>

definition parse_frame :: "string \<Rightarrow> DeviceMessage list" where
  "parse_frame buf =
     (let part0 = takeWhile (\<lambda>c. c \<noteq> CHR '':'') buf;
          part1 = tl (dropWhile (\<lambda>c. c \<noteq> CHR '':'') buf)
      in if 1 \<le> length part0
         then (if utf8_check part1
               then [WithData (of_char (hd part0)) (py_strip part1)]
               else [])
         else [])"

text \<open>
  \<open>uart_decode buf rx\<close> runs the loop's byte handling from the buffer \<open>buf\<close> over the
  input \<open>rx\<close> and returns the messages it dispatches, in order, with the buffer left
  at the end. \<open>Simple c\<close> stands for the call \<open>process_arduino_message(c)\<close> and
  \<open>WithData c d\<close> for the dispatch of a parsed frame.
\<close>

fun uart_decode :: "string \<Rightarrow> rx_item list \<Rightarrow> DeviceMessage list \<times> string" where
  "uart_decode buf [] = ([], buf)"
| "uart_decode buf (Idle # rest) = uart_decode buf rest"
| "uart_decode buf (Byte c # rest) =
     (if c = CHR 0x0A
      then (case uart_decode [] rest of
              (ms, b) \<Rightarrow>
                ((if buf \<noteq> [] \<and> CHR '':'' \<in> set buf then parse_frame buf else []) @ ms, b))
      else if length (buf @ [c]) = 1 \<and> 1 \<le> (of_char c :: nat) \<and> (of_char c :: nat) \<le> 28
      then (case rest of
              [] \<Rightarrow> ([Simple (of_char c)], [])
            | Idle # rest' \<Rightarrow>
                (case uart_decode [] rest' of (ms, b) \<Rightarrow> (Simple (of_char c) # ms, b))
            | Byte n # rest' \<Rightarrow>
                if n = CHR '':'' then uart_decode (buf @ [c] @ [n]) rest'
                else (case uart_decode [n] rest' of (ms, b) \<Rightarrow> (Simple (of_char c) # ms, b)))
      else uart_decode (buf @ [c]) rest)"

fun dispatch :: "int \<Rightarrow> DeviceMessage \<Rightarrow> sys \<Rightarrow> sys" where
  "dispatch now (Simple msg_code) s = process_arduino_message now msg_code s"
| "dispatch now (WithData msg_code data) s = process_data_message now msg_code data s"

text \<open>Draining the UART: decode, and hand each message to the controller.\<close>

definition uart_poll :: "int \<Rightarrow> string \<Rightarrow> rx_item list \<Rightarrow> sys \<Rightarrow> sys \<times> string" where
  "uart_poll now buf rx s =
     (case uart_decode buf rx of (ms, b) \<Rightarrow> (fold (dispatch now) ms s, b))"

subsection \<open>What happens to the LED over time\<close>

text \<open>
  The three ways the LED is driven: a poll of the blink driver by the main loop at a
  clock reading, a call of \<open>set_led_color\<close> by one of the handlers, and the start
  of a blink sequence by \<open>start_led_blink\<close> at a clock reading.
\<close>

datatype led_event = Poll int | DirectSet led_color | Restart int led_color nat

fun led_step :: "led_event \<Rightarrow> sys \<Rightarrow> sys" where
  "led_step (Poll now) s = update_led_blink now s"
| "led_step (DirectSet color) s = set_led_color color s"
| "led_step (Restart now color blink_count) s = start_led_blink now color (int blink_count) s"

text \<open>The frame \<open>set_led_color\<close> writes for a colour.\<close>

definition led_frame :: "led_color \<Rightarrow> string" where
  "led_frame color = uart_frame CMD_SET_LED_RGB (rgb_data color)"

text \<open>
  The driver as the specification describes it, to compare the code with: it is idle,
  or blinking with a colour, the number of phases remaining, whether the current
  phase is on, and the clock reading of the last toggle. A start sets \<open>2 * n\<close>
  phases, shows the colour and marks the phase on. A poll that comes a blink interval
  after the last toggle takes one phase away: when none remains it forces the LED off
  and the driver is idle, otherwise it toggles the phase. Any other poll does
  nothing. A direct \<open>set_led_color\<close> writes its frame and, as in the code, leaves the
  sequence alone. Each step returns the new state with the frames written.
\<close>

datatype blink_state = BlinkIdle | Blinking led_color nat bool int

fun spec_led_step :: "led_event \<Rightarrow> blink_state \<Rightarrow> blink_state \<times> string list" where
  "spec_led_step (Restart now color n) b = (Blinking color (2 * n) True now, [led_frame color])"
| "spec_led_step (DirectSet color) b = (b, [led_frame color])"
| "spec_led_step (Poll now) BlinkIdle = (BlinkIdle, [])"
| "spec_led_step (Poll now) (Blinking color remaining phase_is_on toggled) =
     (if ticks_diff now toggled \<ge> led_blink_interval
      then (if remaining - 1 = 0 then (BlinkIdle, [led_frame LED_OFF])
            else (Blinking color (remaining - 1) (\<not> phase_is_on) now,
                  [led_frame (if phase_is_on then LED_OFF else color)]))
      else (Blinking color remaining phase_is_on toggled, []))"

fun spec_led_run :: "led_event list \<Rightarrow> blink_state \<Rightarrow> blink_state \<times> string list" where
  "spec_led_run [] b = (b, [])"
| "spec_led_run (e # es) b =
     (case spec_led_step e b of
        (b1, out1) \<Rightarrow> (case spec_led_run es b1 of (b2, out2) \<Rightarrow> (b2, out1 @ out2)))"

text \<open>The driver state the variables of the firmware stand for.\<close>

definition blink_of :: "sys \<Rightarrow> blink_state" where
  "blink_of s =
     (if led_blink_active s
      then Blinking (led_blink_color s) (nat (led_blink_max_count s - led_blink_count s))
             (led_blink_is_on s) (led_blink_last_time s)
      else BlinkIdle)"

text \<open>
  \<open>all_due prev ts\<close>: each of the clock readings \<open>ts\<close> is at least one blink interval
  after the one before it, the first one after \<open>prev\<close>.
\<close>

fun all_due :: "int \<Rightarrow> int list \<Rightarrow> bool" where
  "all_due prev [] = True"
| "all_due prev (t # ts) = (ticks_diff t prev \<ge> led_blink_interval \<and> all_due t ts)"

section \<open>Auxiliary facts\<close>

lemma slice_from_numeral_Cons:
  "slice_from (numeral k) (c # cs) = slice_from (pred_numeral k) (dropWhile is_cont cs)"
  by (simp add: numeral_eq_Suc)

lemma slice_from_numeral_Nil: "slice_from (numeral k) [] = []"
  by (simp add: numeral_eq_Suc)

lemma slice_from_one_Cons: "slice_from 1 (c # cs) = dropWhile is_cont cs"
  by (metis One_nat_def slice_from.simps(1) slice_from.simps(3))

lemma slice_from_one_Nil: "slice_from 1 [] = []"
  by (metis One_nat_def slice_from.simps(2))

lemmas slice_from_numeral =
  slice_from_numeral_Cons slice_from_numeral_Nil slice_from_one_Cons slice_from_one_Nil

lemma char_of_eq_iff: "n < 256 \<Longrightarrow> (char_of (n::nat) = c) = (n = of_char c)"
  by (metis char_of_char of_char_of mod_less)

lemmas msg_simps =
  utf8_check_def topic_sub_def topic_auth_response_def startswith_def is_cont_def

lemmas out_simps =
  safe_mqtt_publish_def set_led_color_def send_uart_command_with_data_def send_uart_command_def

lemmas msg_code_simps =
  MSG_STATUS_READY_def MSG_MOTION_DETECTED_def MSG_MOTION_STOPPED_def MSG_RFID_DETECTED_def
  MSG_BUTTON_PRESSED_def MSG_RFID_READ_SUCCESS_def MSG_RFID_READ_FAILED_def
  MSG_RFID_WRITE_SUCCESS_def MSG_RFID_WRITE_FAILED_def MSG_RFID_WRITE_COMPLETED_def
  MSG_STATUS_UPDATE_def MSG_HEARTBEAT_def

lemma mod_shift_cancel: "((a mod p - b + h) mod p :: int) = (a - b + h) mod p"
  by (metis mod_add_left_eq mod_diff_left_eq)

text \<open>A reading taken \<open>d\<close> ms after \<open>t0\<close> differs from it by \<open>d\<close>, also across the wrap.\<close>

lemma ticks_diff_add:
  assumes "- (2 ^ 29) \<le> d" and "d < 2 ^ 29"
  shows "ticks_diff ((t0 + d) mod TICKS_PERIOD) t0 = d"
proof -
  have "ticks_diff ((t0 + d) mod TICKS_PERIOD) t0 =
        (t0 + d - t0 + TICKS_PERIOD div 2) mod TICKS_PERIOD - TICKS_PERIOD div 2"
    unfolding ticks_diff_def by (simp only: mod_shift_cancel)
  also have "\<dots> = (d + 2 ^ 29) mod 2 ^ 30 - 2 ^ 29"
    by (simp add: TICKS_PERIOD_def)
  also have "(d + 2 ^ 29) mod 2 ^ 30 = d + 2 ^ 29"
    using assms by (intro mod_pos_pos_trivial) auto
  finally show ?thesis by simp
qed

section \<open>The security controller\<close>

text \<open>
  C1. The claim: after every sequence of events from the initial state,
  \<open>manually_activated\<close> is true only in \<open>ALARM_ACTIVE\<close>, and in particular
  \<open>CMD_DISABLE_ALARM\<close> and \<open>CMD_ABORT\<close> processed in \<open>ALARM_ACTIVE\<close> leave it false.
  The code at the sequence \<open>CMD_ACTIVATE_ALARM\<close>, \<open>CMD_DISABLE_ALARM\<close> (and at
  \<open>CMD_ACTIVATE_ALARM\<close>, \<open>CMD_ABORT\<close>): \<open>disable_alarm\<close> and \<open>abort_operation\<close> write
  \<open>current_state\<close> only, so the flag set by the manual activation is still true in
  \<open>ALARM_DISABLED\<close> and in \<open>READY\<close>.
\<close>

theorem manual_flag_survives_disable_and_abort:
  "let s1 = sub_cb t1 topic_sub ''CMD_ACTIVATE_ALARM'' initial_state;
       s2 = sub_cb t2 topic_sub ''CMD_DISABLE_ALARM'' s1;
       s3 = sub_cb t2 topic_sub ''CMD_ABORT'' s1
   in current_state s1 = ALARM_ACTIVE \<and> manually_activated s1
      \<and> current_state s2 = ALARM_DISABLED \<and> manually_activated s2
      \<and> current_state s3 = READY \<and> manually_activated s3"
  by (simp add: sub_cb_def msg_simps activate_alarm_manual_def disable_alarm_def
      abort_operation_def out_simps Let_def)

text \<open>
  C2. The claim: every message \<open>CMD_DISABLE_ALARM_TIMED:<m>\<close> disables the alarm
  until \<open>now + m\<close> minutes. The code slices the message at index 25, one past the
  colon (the prefix has 24 characters), so the first digit of the minute count is
  lost: with \<open>m = 1\<close> the text left is empty, \<open>int\<close> raises and the command is
  ignored; with \<open>m = 15\<close> the alarm is disabled for 5 minutes.
\<close>

theorem timed_disable_drops_first_digit:
  "sub_cb now topic_sub ''CMD_DISABLE_ALARM_TIMED:1'' s = s
   \<and> length ''CMD_DISABLE_ALARM_TIMED:'' = 24
   \<and> current_state (sub_cb now topic_sub ''CMD_DISABLE_ALARM_TIMED:15'' s) = ALARM_DISABLED
   \<and> alarm_disable_end_time (sub_cb now topic_sub ''CMD_DISABLE_ALARM_TIMED:15'' s)
       = now + 5 * 60 * 1000"
  by (simp add: sub_cb_def msg_simps slice_from_numeral py_int_def py_strip_def is_space_def
      parse_digits_def is_digit_def disable_alarm_timed_def out_simps)

text \<open>
  The handler behind the command: a timed disable is undone by the first timer check
  whose clock reading is at or above the deadline. The deadline is a plain sum and the
  comparison is on the raw readings, so a deadline at or beyond the period of the
  clock is never reached.
\<close>

lemma timed_disable_expires:
  assumes "0 < now + minutes * 60 * 1000" and "now + minutes * 60 * 1000 \<le> t"
  shows "current_state (disable_alarm_timed now minutes s) = ALARM_DISABLED"
    and "alarm_disable_end_time (disable_alarm_timed now minutes s) = now + minutes * 60 * 1000"
    and "current_state (check_alarm_timeout t (disable_alarm_timed now minutes s)) = READY"
  using assms
  by (simp_all add: disable_alarm_timed_def check_alarm_timeout_def enable_alarm_def out_simps)

text \<open>
  C5. The claim: in \<open>RFID_WRITE_MODE\<close>, the device's write-completed message
  (opcode 10) switches the LED off, publishes the status and makes the state
  \<open>READY\<close>. The code, after \<open>CMD_RFID_WRITE_PREPARE:key\<close>: the LED frame is sent and
  the status is published, and the state is still \<open>RFID_WRITE_MODE\<close>, since the
  assignment in \<open>process_arduino_message\<close> does not reach the module's variable.
\<close>

theorem write_completed_keeps_state:
  "let s1 = sub_cb t1 topic_sub ''CMD_RFID_WRITE_PREPARE:key'' initial_state;
       s2 = process_arduino_message t2 MSG_RFID_WRITE_COMPLETED s1
   in current_state s1 = RFID_WRITE_MODE
      \<and> current_state s2 = RFID_WRITE_MODE
      \<and> uart_tx s2 = uart_tx s1 @ [uart_frame CMD_SET_LED_RGB (rgb_data LED_OFF)]
      \<and> mqtt_out s2 = mqtt_out s1 @ [(topic_pub, ''STATUS_RFID_WRITE_COMPLETED'')]"
  by (simp add: sub_cb_def msg_simps prepare_rfid_write_mode_def process_arduino_message_def
      msg_code_simps out_simps Let_def)

text \<open>
  C6. In every state with \<open>manually_activated\<close> true and \<open>current_state = ALARM_ACTIVE\<close>,
  the message \<open>AUTH_SUCCESS\<close> on the authentication topic leaves the state
  \<open>ALARM_ACTIVE\<close> and the flag true, writes nothing to the UART (so no buzzer-off
  command), and publishes the acknowledgement and \<open>AUTH_SUCCESS_BLOCKED\<close>; no other
  variable changes.
\<close>

theorem auth_success_blocked_when_manually_armed:
  assumes "manually_activated s" and "current_state s = ALARM_ACTIVE"
  shows "let s' = sub_cb now topic_auth_response ''AUTH_SUCCESS'' s
         in current_state s' = ALARM_ACTIVE \<and> manually_activated s'
            \<and> uart_tx s' = uart_tx s
            \<and> mqtt_out s' = mqtt_out s @ [(topic_auth_request, ''ACK_AUTH_SUCCESS''),
                                           (topic_pub, ''AUTH_SUCCESS_BLOCKED'')]
            \<and> s' = s\<lparr>mqtt_out := mqtt_out s'\<rparr>"
  using assms
  by (simp add: sub_cb_def utf8_check_def handle_auth_success_def safe_mqtt_publish_def Let_def)

theorem auth_success_blocked_witness:
  "let s = activate_alarm_manual initial_state;
       s' = sub_cb 0 topic_auth_response ''AUTH_SUCCESS'' s
   in manually_activated s \<and> current_state s = ALARM_ACTIVE
      \<and> current_state s' = ALARM_ACTIVE \<and> manually_activated s'
      \<and> uart_tx s' = uart_tx s
      \<and> mqtt_out s' = mqtt_out s @ [(topic_auth_request, ''ACK_AUTH_SUCCESS''),
                                     (topic_pub, ''AUTH_SUCCESS_BLOCKED'')]"
proof -
  have a: "manually_activated (activate_alarm_manual initial_state)"
    by (simp add: activate_alarm_manual_def out_simps)
  have b: "current_state (activate_alarm_manual initial_state) = ALARM_ACTIVE"
    by (simp add: activate_alarm_manual_def out_simps)
  show ?thesis
    using auth_success_blocked_when_manually_armed [OF a b, of 0] a b by (simp add: Let_def)
qed

text \<open>
  C8. The claim: from any state but \<open>ALARM_DISABLED\<close>, \<open>CMD_DISABLE_ALARM\<close> ends in
  \<open>ALARM_DISABLED\<close> with no disable mode set. The code at the sequence
  \<open>CMD_DISABLE_ALARM_PERMANENT\<close>, \<open>CMD_ABORT\<close>, \<open>CMD_DISABLE_ALARM\<close>: the abort
  returns to \<open>READY\<close> with the permanent flag still set, \<open>disable_alarm\<close> does not
  write it, and the alarm ends permanently disabled; no timer re-enables it.
\<close>

theorem plain_disable_keeps_stale_mode:
  "let s1 = sub_cb t1 topic_sub ''CMD_DISABLE_ALARM_PERMANENT'' initial_state;
       s2 = sub_cb t2 topic_sub ''CMD_ABORT'' s1;
       s3 = sub_cb t3 topic_sub ''CMD_DISABLE_ALARM'' s2
   in current_state s2 = READY \<and> alarm_disable_permanent s2
      \<and> current_state s3 = ALARM_DISABLED \<and> alarm_disable_permanent s3
      \<and> check_alarm_timeout now s3 = s3"
  by (simp add: sub_cb_def msg_simps disable_alarm_permanent_def disable_alarm_def
      abort_operation_def check_alarm_timeout_def out_simps Let_def)

text \<open>
  What the grace period does for any two clock readings: from \<open>READY\<close>, the motion
  message read at \<open>t0\<close> and the timer check at a reading more than the grace period
  later.
\<close>

lemma motion_timeout_general:
  assumes "current_state s = READY" and "ticks_diff t1 t0 > motion_grace_period"
  shows "check_motion_timeout t1 (process_arduino_message t0 MSG_MOTION_DETECTED s) =
         s\<lparr>current_state := ALARM_ACTIVE, manually_activated := False, motion_start_time := t0,
           uart_tx := uart_tx s @ [uart_frame CMD_SET_LED_RGB (rgb_data LED_ORANGE),
                                   [char_of CMD_SET_BUZZER_ON],
                                   uart_frame CMD_SET_LED_RGB (rgb_data LED_RED)],
           mqtt_out := mqtt_out s @ [(topic_pub, ''MOTION_DETECTED''),
                                     (topic_pub, ''ALARM_TRIGGERED'')]\<rparr>"
  using assms
  by (simp add: process_arduino_message_def msg_code_simps
      handle_motion_detected_def check_motion_timeout_def activate_alarm_def out_simps Let_def)

text \<open>What the other timers of a pass leave alone.\<close>

lemma update_led_blink_frame:
  "current_state (update_led_blink t s) = current_state s"
  "manually_activated (update_led_blink t s) = manually_activated s"
  "motion_start_time (update_led_blink t s) = motion_start_time s"
  "mqtt_out (update_led_blink t s) = mqtt_out s"
  "\<exists>u. uart_tx (update_led_blink t s) = uart_tx s @ u"
  by (simp_all add: update_led_blink_def Let_def out_simps)

lemma check_arduino_connection_frame:
  "current_state (check_arduino_connection t s) = current_state s"
  "manually_activated (check_arduino_connection t s) = manually_activated s"
  "motion_start_time (check_arduino_connection t s) = motion_start_time s"
  "uart_tx (check_arduino_connection t s) = uart_tx s"
  "\<exists>m. mqtt_out (check_arduino_connection t s) = mqtt_out s @ m"
  by (simp_all add: check_arduino_connection_def out_simps)

lemma check_alarm_timeout_idle:
  "current_state s \<noteq> ALARM_DISABLED \<Longrightarrow> check_alarm_timeout t s = s"
  by (simp add: check_alarm_timeout_def)

text \<open>The timer pass after the motion check, in a state that is not disabled.\<close>

lemma later_timers_frame:
  assumes "current_state x \<noteq> ALARM_DISABLED"
  shows "current_state (update_led_blink t (check_arduino_connection t (check_alarm_timeout t x))) = current_state x"
    and "manually_activated (update_led_blink t (check_arduino_connection t (check_alarm_timeout t x))) = manually_activated x"
    and "motion_start_time (update_led_blink t (check_arduino_connection t (check_alarm_timeout t x))) = motion_start_time x"
    and "\<exists>u. uart_tx (update_led_blink t (check_arduino_connection t (check_alarm_timeout t x))) = uart_tx x @ u"
    and "\<exists>m. mqtt_out (update_led_blink t (check_arduino_connection t (check_alarm_timeout t x))) = mqtt_out x @ m"
proof -
  let ?y = "check_arduino_connection t x"
  have idle: "check_alarm_timeout t x = x" using assms by (rule check_alarm_timeout_idle)
  show "current_state (update_led_blink t (check_arduino_connection t (check_alarm_timeout t x))) = current_state x"
    and "manually_activated (update_led_blink t (check_arduino_connection t (check_alarm_timeout t x))) = manually_activated x"
    and "motion_start_time (update_led_blink t (check_arduino_connection t (check_alarm_timeout t x))) = motion_start_time x"
    by (simp_all add: idle update_led_blink_frame check_arduino_connection_frame)
  obtain u where "uart_tx (update_led_blink t ?y) = uart_tx ?y @ u"
    using update_led_blink_frame(5) by blast
  then show "\<exists>u. uart_tx (update_led_blink t (check_arduino_connection t (check_alarm_timeout t x))) = uart_tx x @ u"
    by (simp add: idle check_arduino_connection_frame)
  obtain m where "mqtt_out ?y = mqtt_out x @ m"
    using check_arduino_connection_frame(5) by blast
  then show "\<exists>m. mqtt_out (update_led_blink t (check_arduino_connection t (check_alarm_timeout t x))) = mqtt_out x @ m"
    by (simp add: idle update_led_blink_frame)
qed

text \<open>A pass of the timers while the alarm is active.\<close>

lemma check_timers_active:
  assumes "current_state x = ALARM_ACTIVE"
  shows "current_state (check_timers t x) = ALARM_ACTIVE"
    and "manually_activated (check_timers t x) = manually_activated x"
    and "\<exists>u. uart_tx (check_timers t x) = uart_tx x @ u"
    and "\<exists>m. mqtt_out (check_timers t x) = mqtt_out x @ m"
proof -
  have ne: "current_state x \<noteq> ALARM_DISABLED" using assms by simp
  have m: "check_motion_timeout t x = x" using assms by (simp add: check_motion_timeout_def)
  show "current_state (check_timers t x) = ALARM_ACTIVE"
    and "manually_activated (check_timers t x) = manually_activated x"
    and "\<exists>u. uart_tx (check_timers t x) = uart_tx x @ u"
    and "\<exists>m. mqtt_out (check_timers t x) = mqtt_out x @ m"
    using later_timers_frame [OF ne, of t] assms by (simp_all add: check_timers_def m)
qed

text \<open>A pass of the timers within the grace period.\<close>

lemma check_timers_waiting:
  assumes "current_state x = MOTION_DETECTED"
    and "\<not> ticks_diff t (motion_start_time x) > motion_grace_period"
  shows "current_state (check_timers t x) = MOTION_DETECTED"
    and "motion_start_time (check_timers t x) = motion_start_time x"
    and "\<exists>u. uart_tx (check_timers t x) = uart_tx x @ u"
    and "\<exists>m. mqtt_out (check_timers t x) = mqtt_out x @ m"
proof -
  have ne: "current_state x \<noteq> ALARM_DISABLED" using assms by simp
  have m: "check_motion_timeout t x = x" using assms by (simp add: check_motion_timeout_def)
  show "current_state (check_timers t x) = MOTION_DETECTED"
    and "motion_start_time (check_timers t x) = motion_start_time x"
    and "\<exists>u. uart_tx (check_timers t x) = uart_tx x @ u"
    and "\<exists>m. mqtt_out (check_timers t x) = mqtt_out x @ m"
    using later_timers_frame [OF ne, of t] assms by (simp_all add: check_timers_def m)
qed

text \<open>The pass of the timers that finds the grace period over.\<close>

lemma check_timers_fire:
  assumes "current_state x = MOTION_DETECTED"
    and "ticks_diff t (motion_start_time x) > motion_grace_period"
  shows "current_state (check_timers t x) = ALARM_ACTIVE"
    and "\<not> manually_activated (check_timers t x)"
    and "\<exists>u. uart_tx (check_timers t x) = uart_tx x @ u \<and> [char_of CMD_SET_BUZZER_ON] \<in> set u"
    and "\<exists>m. mqtt_out (check_timers t x) = mqtt_out x @ m \<and> (topic_pub, ''ALARM_TRIGGERED'') \<in> set m"
proof -
  let ?y = "check_motion_timeout t x"
  have y: "?y = x\<lparr>current_state := ALARM_ACTIVE, manually_activated := False,
                  uart_tx := uart_tx x @ [[char_of CMD_SET_BUZZER_ON],
                                          uart_frame CMD_SET_LED_RGB (rgb_data LED_RED)],
                  mqtt_out := mqtt_out x @ [(topic_pub, ''ALARM_TRIGGERED'')]\<rparr>"
    using assms by (simp add: check_motion_timeout_def activate_alarm_def out_simps)
  have ne: "current_state ?y \<noteq> ALARM_DISABLED" by (simp add: y)
  note f = later_timers_frame [OF ne, of t]
  show "current_state (check_timers t x) = ALARM_ACTIVE"
    using f(1) by (simp add: check_timers_def y)
  show "\<not> manually_activated (check_timers t x)"
    using f(2) by (simp add: check_timers_def y)
  obtain u where "uart_tx (check_timers t x) = uart_tx ?y @ u"
    using f(4) by (auto simp: check_timers_def)
  then have "uart_tx (check_timers t x) =
             uart_tx x @ ([[char_of CMD_SET_BUZZER_ON], uart_frame CMD_SET_LED_RGB (rgb_data LED_RED)] @ u)"
    by (simp add: y)
  then show "\<exists>u. uart_tx (check_timers t x) = uart_tx x @ u \<and> [char_of CMD_SET_BUZZER_ON] \<in> set u"
    by (intro exI conjI) (assumption, simp)
  obtain m where "mqtt_out (check_timers t x) = mqtt_out ?y @ m"
    using f(5) by (auto simp: check_timers_def)
  then have "mqtt_out (check_timers t x) = mqtt_out x @ ([(topic_pub, ''ALARM_TRIGGERED'')] @ m)"
    by (simp add: y)
  then show "\<exists>m. mqtt_out (check_timers t x) = mqtt_out x @ m \<and> (topic_pub, ''ALARM_TRIGGERED'') \<in> set m"
    by (intro exI conjI) (assumption, simp)
qed

text \<open>Once the alarm is active, further passes of the timers keep it so.\<close>

lemma timers_keep_alarm:
  assumes "current_state x = ALARM_ACTIVE" and "\<not> manually_activated x"
  shows "current_state (fold check_timers ts x) = ALARM_ACTIVE
         \<and> \<not> manually_activated (fold check_timers ts x)
         \<and> (\<exists>u. uart_tx (fold check_timers ts x) = uart_tx x @ u)
         \<and> (\<exists>m. mqtt_out (fold check_timers ts x) = mqtt_out x @ m)"
  using assms
proof (induction ts arbitrary: x)
  case Nil
  then show ?case by simp
next
  case (Cons t ts)
  note a = check_timers_active [OF Cons.prems(1), of t]
  have ih: "current_state (fold check_timers ts (check_timers t x)) = ALARM_ACTIVE
         \<and> \<not> manually_activated (fold check_timers ts (check_timers t x))
         \<and> (\<exists>u. uart_tx (fold check_timers ts (check_timers t x)) = uart_tx (check_timers t x) @ u)
         \<and> (\<exists>m. mqtt_out (fold check_timers ts (check_timers t x)) = mqtt_out (check_timers t x) @ m)"
    using a Cons.prems(2) by (intro Cons.IH) simp_all
  obtain u1 m1 where 1: "uart_tx (check_timers t x) = uart_tx x @ u1"
      "mqtt_out (check_timers t x) = mqtt_out x @ m1"
    using a(3,4) by blast
  obtain u2 m2 where 2: "uart_tx (fold check_timers ts (check_timers t x)) = uart_tx (check_timers t x) @ u2"
      "mqtt_out (fold check_timers ts (check_timers t x)) = mqtt_out (check_timers t x) @ m2"
    using ih by blast
  show ?case using ih 1 2 by simp
qed


text \<open>
  From the grace period on: passes of the timers at most 6000 ms after the motion
  message, at least one of them after more than 5000 ms.
\<close>

lemma grace_period_run:
  assumes "current_state x = MOTION_DETECTED" and "motion_start_time x = t0"
    and "\<forall>d\<in>set ds. 0 \<le> d \<and> d \<le> 6000" and "\<exists>d\<in>set ds. 5000 < d"
  shows "current_state (fold check_timers (map (\<lambda>d. (t0 + d) mod TICKS_PERIOD) ds) x) = ALARM_ACTIVE
     \<and> \<not> manually_activated (fold check_timers (map (\<lambda>d. (t0 + d) mod TICKS_PERIOD) ds) x)
     \<and> (\<exists>u. uart_tx (fold check_timers (map (\<lambda>d. (t0 + d) mod TICKS_PERIOD) ds) x) = uart_tx x @ u
            \<and> [char_of CMD_SET_BUZZER_ON] \<in> set u)
     \<and> (\<exists>m. mqtt_out (fold check_timers (map (\<lambda>d. (t0 + d) mod TICKS_PERIOD) ds) x) = mqtt_out x @ m
            \<and> (topic_pub, ''ALARM_TRIGGERED'') \<in> set m)"
  using assms
proof (induction ds arbitrary: x)
  case Nil
  then show ?case by simp
next
  case (Cons d ds)
  let ?t = "(t0 + d) mod TICKS_PERIOD"
  let ?ts = "map (\<lambda>d. (t0 + d) mod TICKS_PERIOD) ds"
  let ?x1 = "check_timers ?t x"
  have d: "0 \<le> d" "d \<le> 6000" using Cons.prems(3) by auto
  have diff: "ticks_diff ?t (motion_start_time x) = d"
    unfolding Cons.prems(2) using d by (intro ticks_diff_add) auto
  show ?case
  proof (cases "5000 < d")
    case True
    then have late: "ticks_diff ?t (motion_start_time x) > motion_grace_period"
      by (simp add: diff motion_grace_period_def)
    note f = check_timers_fire [OF Cons.prems(1) late]
    note k = timers_keep_alarm [OF f(1) f(2), of ?ts]
    obtain u1 where u1: "uart_tx ?x1 = uart_tx x @ u1" "[char_of CMD_SET_BUZZER_ON] \<in> set u1"
      using f(3) by blast
    obtain m1 where m1: "mqtt_out ?x1 = mqtt_out x @ m1" "(topic_pub, ''ALARM_TRIGGERED'') \<in> set m1"
      using f(4) by blast
    obtain u2 where u2: "uart_tx (fold check_timers ?ts ?x1) = uart_tx ?x1 @ u2"
      using k by blast
    obtain m2 where m2: "mqtt_out (fold check_timers ?ts ?x1) = mqtt_out ?x1 @ m2"
      using k by blast
    have "uart_tx (fold check_timers ?ts ?x1) = uart_tx x @ (u1 @ u2)"
      and "[char_of CMD_SET_BUZZER_ON] \<in> set (u1 @ u2)"
      and "mqtt_out (fold check_timers ?ts ?x1) = mqtt_out x @ (m1 @ m2)"
      and "(topic_pub, ''ALARM_TRIGGERED'') \<in> set (m1 @ m2)"
      using u1 u2 m1 m2 by simp_all
    then show ?thesis using k by (simp del: append_assoc)
  next
    case False
    then have early: "\<not> ticks_diff ?t (motion_start_time x) > motion_grace_period"
      by (simp add: diff motion_grace_period_def)
    note w = check_timers_waiting [OF Cons.prems(1) early]
    have later: "\<exists>d\<in>set ds. 5000 < d" using Cons.prems(4) False by auto
    have rest: "\<forall>d\<in>set ds. 0 \<le> d \<and> d \<le> 6000" using Cons.prems(3) by auto
    have start: "motion_start_time ?x1 = t0" using w(2) Cons.prems(2) by simp
    note ih = Cons.IH [OF w(1) start rest later]
    obtain u1 where u1: "uart_tx ?x1 = uart_tx x @ u1" using w(3) by blast
    obtain m1 where m1: "mqtt_out ?x1 = mqtt_out x @ m1" using w(4) by blast
    obtain u2 where u2: "uart_tx (fold check_timers ?ts ?x1) = uart_tx ?x1 @ u2"
        "[char_of CMD_SET_BUZZER_ON] \<in> set u2"
      using ih by blast
    obtain m2 where m2: "mqtt_out (fold check_timers ?ts ?x1) = mqtt_out ?x1 @ m2"
        "(topic_pub, ''ALARM_TRIGGERED'') \<in> set m2"
      using ih by blast
    have "uart_tx (fold check_timers ?ts ?x1) = uart_tx x @ (u1 @ u2)"
      and "[char_of CMD_SET_BUZZER_ON] \<in> set (u1 @ u2)"
      and "mqtt_out (fold check_timers ?ts ?x1) = mqtt_out x @ (m1 @ m2)"
      and "(topic_pub, ''ALARM_TRIGGERED'') \<in> set (m1 @ m2)"
      using u1 u2 m1 m2 by simp_all
    then show ?thesis using ih by (simp del: append_assoc)
  qed
qed

lemma motion_message_from_ready:
  assumes "current_state s = READY"
  shows "process_arduino_message t0 MSG_MOTION_DETECTED s =
         s\<lparr>current_state := MOTION_DETECTED, motion_start_time := t0,
           uart_tx := uart_tx s @ [uart_frame CMD_SET_LED_RGB (rgb_data LED_ORANGE)],
           mqtt_out := mqtt_out s @ [(topic_pub, ''MOTION_DETECTED'')]\<rparr>"
  using assms
  by (simp add: process_arduino_message_def msg_code_simps handle_motion_detected_def
      out_simps Let_def)

text \<open>
  C9. From \<open>READY\<close>, the device's motion message at clock reading \<open>t0\<close> followed by
  6 s in which the main loop only runs its timers (no motion-stopped message, no
  command): whenever the timer passes come, as long as one of them comes more than
  5000 ms and none more than 6000 ms after the message, the state at the end is
  \<open>ALARM_ACTIVE\<close> with \<open>manually_activated\<close> false, the single byte
  \<open>CMD_SET_BUZZER_ON\<close> has been written to the UART and \<open>ALARM_TRIGGERED\<close> has been
  published. This holds for every \<open>t0\<close>, also when the clock wraps in between.
\<close>

theorem motion_grace_elapsed_triggers_alarm:
  assumes "current_state s = READY"
    and "\<forall>d\<in>set ds. 0 \<le> d \<and> d \<le> 6000" and "\<exists>d\<in>set ds. 5000 < d"
  shows "let s' = fold check_timers (map (\<lambda>d. (t0 + d) mod TICKS_PERIOD) ds)
                    (process_arduino_message t0 MSG_MOTION_DETECTED s)
         in current_state s' = ALARM_ACTIVE
            \<and> \<not> manually_activated s'
            \<and> (\<exists>u. uart_tx s' = uart_tx s @ u \<and> [char_of CMD_SET_BUZZER_ON] \<in> set u)
            \<and> (\<exists>m. mqtt_out s' = mqtt_out s @ m \<and> (topic_pub, ''ALARM_TRIGGERED'') \<in> set m)"
proof -
  let ?x = "process_arduino_message t0 MSG_MOTION_DETECTED s"
  let ?s' = "fold check_timers (map (\<lambda>d. (t0 + d) mod TICKS_PERIOD) ds) ?x"
  note x = motion_message_from_ready [OF assms(1), of t0]
  have a: "current_state ?x = MOTION_DETECTED" and b: "motion_start_time ?x = t0"
    by (simp_all add: x)
  note g = grace_period_run [OF a b assms(2,3)]
  obtain u where u: "uart_tx ?s' = uart_tx ?x @ u" "[char_of CMD_SET_BUZZER_ON] \<in> set u"
    using g by blast
  obtain m where m: "mqtt_out ?s' = mqtt_out ?x @ m" "(topic_pub, ''ALARM_TRIGGERED'') \<in> set m"
    using g by blast
  have "uart_tx ?s' = uart_tx s @ (uart_frame CMD_SET_LED_RGB (rgb_data LED_ORANGE) # u)"
    and "[char_of CMD_SET_BUZZER_ON] \<in> set (uart_frame CMD_SET_LED_RGB (rgb_data LED_ORANGE) # u)"
    and "mqtt_out ?s' = mqtt_out s @ ((topic_pub, ''MOTION_DETECTED'') # m)"
    and "(topic_pub, ''ALARM_TRIGGERED'') \<in> set ((topic_pub, ''MOTION_DETECTED'') # m)"
    using u m by (simp_all add: x)
  then show ?thesis using g unfolding Let_def by blast
qed

theorem motion_grace_elapsed_witness:
  "let s' = fold check_timers (map (\<lambda>d. (1073741000 + d) mod TICKS_PERIOD) [1, 2500, 5001, 6000])
              (process_arduino_message 1073741000 MSG_MOTION_DETECTED initial_state)
   in current_state initial_state = READY
      \<and> current_state s' = ALARM_ACTIVE
      \<and> \<not> manually_activated s'
      \<and> (\<exists>u. uart_tx s' = uart_tx initial_state @ u \<and> [char_of CMD_SET_BUZZER_ON] \<in> set u)
      \<and> (\<exists>m. mqtt_out s' = mqtt_out initial_state @ m \<and> (topic_pub, ''ALARM_TRIGGERED'') \<in> set m)"
proof -
  have a: "current_state initial_state = READY" by (simp add: initial_state_def)
  have b: "\<forall>d\<in>set [1, 2500, 5001, 6000 :: int]. 0 \<le> d \<and> d \<le> 6000" by simp
  have c: "\<exists>d\<in>set [1, 2500, 5001, 6000 :: int]. 5000 < d" by simp
  show ?thesis
    using motion_grace_elapsed_triggers_alarm [OF a b c, of 1073741000] a unfolding Let_def by blast
qed

text \<open>
  C10, as claimed: in \<open>ALARM_DISABLED\<close> with the permanent flag false and no deadline
  set, the timer check re-arms once more than 60 s have passed since the stored
  \<open>alarm_disabled_time\<close>, and so undoes a plain disable command. After a start at
  clock reading 0, \<open>CMD_DISABLE_ALARM\<close> arrives seven days later (604800000 ms): the
  stored time is still 0, far more than 60 s ago, and the timer checks 60 s later and
  at the last reading of the clock's period leave the state \<open>ALARM_DISABLED\<close>,
  because \<open>ticks_diff\<close> of readings more than half a period apart is negative.
\<close>

theorem legacy_timeout_misses_stale_stamp:
  "current_state (sub_cb 604800000 topic_sub ''CMD_DISABLE_ALARM'' initial_state) = ALARM_DISABLED
   \<and> \<not> alarm_disable_permanent (sub_cb 604800000 topic_sub ''CMD_DISABLE_ALARM'' initial_state)
   \<and> alarm_disable_end_time (sub_cb 604800000 topic_sub ''CMD_DISABLE_ALARM'' initial_state) = 0
   \<and> alarm_disabled_time (sub_cb 604800000 topic_sub ''CMD_DISABLE_ALARM'' initial_state) = 0
   \<and> ticks_diff 604860001 0 = - 468881823
   \<and> check_alarm_timeout 604860001 (sub_cb 604800000 topic_sub ''CMD_DISABLE_ALARM'' initial_state)
       = sub_cb 604800000 topic_sub ''CMD_DISABLE_ALARM'' initial_state
   \<and> check_alarm_timeout 1073741823 (sub_cb 604800000 topic_sub ''CMD_DISABLE_ALARM'' initial_state)
       = sub_cb 604800000 topic_sub ''CMD_DISABLE_ALARM'' initial_state"
  by (simp add: sub_cb_def msg_simps disable_alarm_def check_alarm_timeout_def out_simps
      initial_state_def ticks_diff_def TICKS_PERIOD_def alarm_disable_duration_def)

text \<open>
  C10, amended. With the permanent flag false and no deadline set, at a clock reading
  \<open>d\<close> ms after the stored \<open>alarm_disabled_time\<close>, for \<open>d\<close> above 60000 and below
  \<open>2^29\<close> (half the period of the clock), the timer check in \<open>ALARM_DISABLED\<close> makes
  the state \<open>READY\<close>, switches the LED off and publishes \<open>ALARM_REARMED\<close>.
  \<open>CMD_DISABLE_ALARM\<close> leaves \<open>alarm_disabled_time\<close> as it was, so after a plain
  disable command the same check re-arms the alarm, measured from the old time stamp
  and within the same bound.
\<close>

theorem legacy_timeout_rearms_plain_disable:
  assumes "\<not> alarm_disable_permanent s" and "alarm_disable_end_time s = 0"
    and "alarm_disable_duration < d" and "d < 2 ^ 29"
  shows "let now = (alarm_disabled_time s + d) mod TICKS_PERIOD;
             s1 = sub_cb t topic_sub ''CMD_DISABLE_ALARM'' s
         in (current_state s = ALARM_DISABLED \<longrightarrow>
               check_alarm_timeout now s =
                 s\<lparr>current_state := READY,
                   uart_tx := uart_tx s @ [uart_frame CMD_SET_LED_RGB (rgb_data LED_OFF)],
                   mqtt_out := mqtt_out s @ [(topic_pub, ''ALARM_REARMED'')]\<rparr>)
            \<and> alarm_disabled_time s1 = alarm_disabled_time s
            \<and> current_state s1 = ALARM_DISABLED
            \<and> current_state (check_alarm_timeout now s1) = READY
            \<and> mqtt_out (check_alarm_timeout now s1) =
                mqtt_out s @ [(topic_pub, ''ACK_CMD_DISABLE_ALARM''), (topic_pub, ''ALARM_REARMED'')]"
proof -
  have "0 \<le> d" using assms(3) by (simp add: alarm_disable_duration_def)
  then have "ticks_diff ((alarm_disabled_time s + d) mod TICKS_PERIOD) (alarm_disabled_time s) = d"
    using assms(4) by (intro ticks_diff_add) auto
  then have late: "ticks_diff ((alarm_disabled_time s + d) mod TICKS_PERIOD) (alarm_disabled_time s)
                   > alarm_disable_duration"
    using assms(3) by simp
  show ?thesis
    using assms(1,2) late
    by (simp add: sub_cb_def msg_simps disable_alarm_def check_alarm_timeout_def out_simps Let_def)
qed

theorem legacy_timeout_rearms_witness:
  "let s = handle_auth_success 1073741000 initial_state;
       now = (alarm_disabled_time s + 69001) mod TICKS_PERIOD;
       s1 = sub_cb 1073741500 topic_sub ''CMD_DISABLE_ALARM'' s
   in \<not> alarm_disable_permanent s \<and> alarm_disable_end_time s = 0
      \<and> alarm_disable_duration < 69001 \<and> (69001::int) < 2 ^ 29
      \<and> now = 68177
      \<and> current_state s = ALARM_DISABLED
      \<and> current_state (check_alarm_timeout now s) = READY
      \<and> alarm_disabled_time s1 = 1073741000
      \<and> current_state s1 = ALARM_DISABLED
      \<and> current_state (check_alarm_timeout now s1) = READY"
proof -
  let ?s = "handle_auth_success 1073741000 initial_state"
  have a: "\<not> alarm_disable_permanent ?s" and b: "alarm_disable_end_time ?s = 0"
    and d: "current_state ?s = ALARM_DISABLED" and e: "alarm_disabled_time ?s = 1073741000"
    by (simp_all add: handle_auth_success_def initial_state_def out_simps)
  have c: "alarm_disable_duration < 69001" by (simp add: alarm_disable_duration_def)
  have f: "(69001::int) < 2 ^ 29" by simp
  have g: "(alarm_disabled_time ?s + 69001) mod TICKS_PERIOD = 68177"
    by (simp add: e TICKS_PERIOD_def)
  show ?thesis
    using legacy_timeout_rearms_plain_disable [OF a b c f, of 1073741500] a b c d e g
    by (simp add: Let_def)
qed

section \<open>The frame decoder\<close>

lemma parse_frame_opcode_colon:
  assumes "c \<noteq> CHR '':''" and "utf8_check payload"
  shows "parse_frame (c # CHR '':'' # payload) = [WithData (of_char c) (py_strip payload)]"
  using assms by (simp add: parse_frame_def)

lemma uart_decode_accumulate:
  assumes "c \<noteq> CHR 0x0A" and "buf \<noteq> []"
  shows "uart_decode buf (Byte c # rest) = uart_decode (buf @ [c]) rest"
  using assms by simp

lemma uart_decode_payload:
  assumes "CHR 0x0A \<notin> set payload" and "2 \<le> length buf"
  shows "uart_decode buf (map Byte payload @ Byte (CHR 0x0A) # rest) =
         (case uart_decode [] rest of
            (ms, b) \<Rightarrow>
              ((if CHR '':'' \<in> set (buf @ payload) then parse_frame (buf @ payload) else []) @ ms, b))"
  using assms
proof (induction payload arbitrary: buf)
  case Nil
  then show ?case by auto
next
  case (Cons c payload)
  have "c \<noteq> CHR 0x0A" and "buf \<noteq> []"
    using Cons.prems by auto
  then have "uart_decode buf (map Byte (c # payload) @ Byte (CHR 0x0A) # rest)
        = uart_decode (buf @ [c]) (map Byte payload @ Byte (CHR 0x0A) # rest)"
    by (simp del: uart_decode.simps add: uart_decode_accumulate)
  also have "\<dots> = (case uart_decode [] rest of
            (ms, b) \<Rightarrow>
              ((if CHR '':'' \<in> set ((buf @ [c]) @ payload) then parse_frame ((buf @ [c]) @ payload) else []) @ ms, b))"
    using Cons.prems by (intro Cons.IH) auto
  finally show ?case by simp
qed

lemma uart_decode_frame_start:
  assumes "c \<noteq> CHR 0x0A"
  shows "uart_decode [] (Byte c # Byte (CHR '':'') # rest) = uart_decode [c, CHR '':''] rest"
  using assms by simp

lemma dropWhile_hd_id: "xs \<noteq> [] \<Longrightarrow> \<not> P (hd xs) \<Longrightarrow> dropWhile P xs = xs"
  by (cases xs) auto

lemma py_strip_id:
  assumes "s = [] \<or> (\<not> is_space (hd s) \<and> \<not> is_space (last s))"
  shows "py_strip s = s"
proof (cases "s = []")
  case True
  then show ?thesis by (simp add: py_strip_def)
next
  case False
  with assms have h: "\<not> is_space (hd s)" and l: "\<not> is_space (last s)" by auto
  have "dropWhile is_space s = s" using False h by (rule dropWhile_hd_id)
  moreover have "dropWhile is_space (rev s) = rev s"
    using False l by (intro dropWhile_hd_id) (simp_all add: hd_rev)
  ultimately show ?thesis by (simp add: py_strip_def)
qed

text \<open>A known opcode followed by a pause is dispatched once, unless it is the line feed.\<close>

lemma opcode_then_idle:
  assumes "1 \<le> op" and "op \<le> 28" and "op \<noteq> 10"
  shows "uart_decode [] (Byte (char_of op) # Idle # rest) =
         (case uart_decode [] rest of (ms, b) \<Rightarrow> (Simple op # ms, b))"
  using assms by (simp add: char_of_eq_iff)

text \<open>
  C3. The claim: when an opcode in [1,28] is followed within the window by a byte
  other than a colon, that byte is fed again as the first byte of the next frame, so
  nothing after it is lost. The code on the bytes 2, 3 arriving together (motion
  detected, motion stopped): \<open>Simple 2\<close> is dispatched and 3 is kept in the buffer,
  but the opcode test runs only on a byte just read into an empty buffer, so 3 is
  never dispatched, and the heartbeat 12 that follows a pause later is appended to it
  and lost too. With a pause after each byte all three are dispatched. A lone line
  feed, opcode 10, yields nothing.
\<close>

theorem lookahead_byte_not_redecoded:
  "uart_decode [] [Byte (CHR 0x02), Byte (CHR 0x03)] = ([Simple 2], [CHR 0x03])
   \<and> uart_decode [] [Byte (CHR 0x02), Byte (CHR 0x03), Idle, Byte (CHR 0x0C), Idle]
       = ([Simple 2], [CHR 0x03, CHR 0x0C])
   \<and> uart_decode [] [Byte (CHR 0x02), Idle, Byte (CHR 0x03), Idle, Byte (CHR 0x0C), Idle]
       = ([Simple 2, Simple 3, Simple 12], [])
   \<and> uart_decode [] [Byte (CHR 0x0A), Idle] = ([], [])"
  by simp

text \<open>
  C4, as claimed: the frame of any opcode and payload decodes to the same payload.
  The payload \<open>'' k''\<close> with opcode 6 comes back as \<open>''k''\<close>: the decoder strips it.
\<close>

theorem frame_round_trip_counterexample:
  "uart_decode [] (map Byte (uart_frame MSG_RFID_READ_SUCCESS '' k'')) = ([WithData 6 ''k''], [])
   \<and> WithData 6 ''k'' \<noteq> WithData MSG_RFID_READ_SUCCESS '' k''"
  by (simp add: uart_frame_def MSG_RFID_READ_SUCCESS_def parse_frame_def utf8_check_def
      py_strip_def is_space_def char_of_eq_iff)

text \<open>
  C4, amended. For every opcode byte other than the line feed (10) and the colon (58)
  and every well-formed payload without a line feed, the bytes written by
  \<open>send_uart_command_with_data\<close>, arriving without a pause from an empty buffer,
  decode to exactly one message: the opcode with the payload stripped of leading and
  trailing white space, whatever follows the frame. So the round trip is exact for a
  payload with no white space at its ends, the empty one included, and only the first
  colon is taken as delimiter.
\<close>

theorem frame_round_trip_stripped:
  assumes "op < 256" and "op \<noteq> 10" and "op \<noteq> 58"
    and "CHR 0x0A \<notin> set payload" and "utf8_check payload"
  shows "uart_decode [] (map Byte (uart_frame op payload) @ rest) =
           (case uart_decode [] rest of (ms, b) \<Rightarrow> (WithData op (py_strip payload) # ms, b))"
proof -
  let ?c = "char_of op :: char"
  have c_nl: "?c \<noteq> CHR 0x0A" and c_colon: "?c \<noteq> CHR '':''"
    using assms(1-3) by (simp_all add: char_of_eq_iff)
  have c_val: "of_char ?c = op" using assms(1) by simp
  have "uart_decode [] (map Byte (uart_frame op payload) @ rest)
        = uart_decode [] (Byte ?c # Byte (CHR '':'') # (map Byte payload @ Byte (CHR 0x0A) # rest))"
    by (simp add: uart_frame_def)
  also have "\<dots> = uart_decode [?c, CHR '':''] (map Byte payload @ Byte (CHR 0x0A) # rest)"
    using c_nl by (rule uart_decode_frame_start)
  also have "\<dots> = (case uart_decode [] rest of
            (ms, b) \<Rightarrow>
              ((if CHR '':'' \<in> set ([?c, CHR '':''] @ payload)
                then parse_frame ([?c, CHR '':''] @ payload) else []) @ ms, b))"
    using assms(4) by (intro uart_decode_payload) auto
  also have "\<dots> = (case uart_decode [] rest of (ms, b) \<Rightarrow> (WithData op (py_strip payload) # ms, b))"
    using parse_frame_opcode_colon [OF c_colon assms(5)] c_val by simp
  finally show ?thesis .
qed


theorem frame_round_trip_witness:
  "(6::nat) < 256 \<and> (6::nat) \<noteq> 10 \<and> (6::nat) \<noteq> 58
   \<and> CHR 0x0A \<notin> set '' a:b:c '' \<and> utf8_check '' a:b:c ''
   \<and> uart_decode [] (map Byte (uart_frame 6 '' a:b:c '') @ []) = ([WithData 6 ''a:b:c''], [])"
  using frame_round_trip_stripped [of 6 "'' a:b:c ''" "[]"]
  by (simp add: utf8_check_def py_strip_def is_space_def)

section \<open>The LED blink driver\<close>

lemma set_led_color_blink:
  "led_blink_active (set_led_color c s) = led_blink_active s"
  "led_blink_count (set_led_color c s) = led_blink_count s"
  "led_blink_max_count (set_led_color c s) = led_blink_max_count s"
  "led_blink_last_time (set_led_color c s) = led_blink_last_time s"
  "led_blink_is_on (set_led_color c s) = led_blink_is_on s"
  "led_blink_color (set_led_color c s) = led_blink_color s"
  "uart_tx (set_led_color c s) = uart_tx s @ [led_frame c]"
  by (simp_all add: out_simps led_frame_def)

text \<open>A blink sequence has \<open>2 * n\<close> phases from its start, whatever went before.\<close>

lemma start_led_blink_spec:
  "blink_of (start_led_blink now color (int n) s) = Blinking color (2 * n) True now"
  "uart_tx (start_led_blink now color (int n) s) = uart_tx s @ [led_frame color]"
  by (simp_all add: start_led_blink_def blink_of_def out_simps led_frame_def)

text \<open>A poll of the code's driver is a poll of the specified one.\<close>

lemma update_led_blink_spec:
  "blink_of (update_led_blink now s) = fst (spec_led_step (Poll now) (blink_of s))"
  "uart_tx (update_led_blink now s) = uart_tx s @ snd (spec_led_step (Poll now) (blink_of s))"
  by (auto simp add: update_led_blink_def blink_of_def Let_def out_simps led_frame_def
      nat_diff_distrib)

lemma led_step_spec:
  "blink_of (led_step e s) = fst (spec_led_step e (blink_of s))"
  "uart_tx (led_step e s) = uart_tx s @ snd (spec_led_step e (blink_of s))"
proof -
  show "blink_of (led_step e s) = fst (spec_led_step e (blink_of s))"
  proof (cases e)
    case (Poll now)
    then show ?thesis by (simp add: update_led_blink_spec)
  next
    case (DirectSet c)
    then show ?thesis by (simp add: blink_of_def set_led_color_blink)
  next
    case (Restart now c n)
    then show ?thesis by (simp add: start_led_blink_spec)
  qed
  show "uart_tx (led_step e s) = uart_tx s @ snd (spec_led_step e (blink_of s))"
  proof (cases e)
    case (Poll now)
    then show ?thesis by (simp add: update_led_blink_spec)
  next
    case (DirectSet c)
    then show ?thesis by (simp add: set_led_color_blink)
  next
    case (Restart now c n)
    then show ?thesis by (simp add: start_led_blink_spec)
  qed
qed

lemma led_run_spec:
  "blink_of (fold led_step es s) = fst (spec_led_run es (blink_of s))
   \<and> uart_tx (fold led_step es s) = uart_tx s @ snd (spec_led_run es (blink_of s))"
proof (induction es arbitrary: s)
  case Nil
  then show ?case by simp
next
  case (Cons e es)
  show ?case
    using Cons.IH [of "led_step e s"] led_step_spec [of e s]
    by (simp add: split_beta)
qed

text \<open>
  The specified driver over polls that are all due: from \<open>2 * n\<close> phases with the LED
  on, \<open>2 * n\<close> polls switch the LED off and on in turn, \<open>n - 1\<close> times, then off and,
  with the last poll, off again, and leave the driver idle.
\<close>

lemma spec_led_run_all_due:
  assumes "0 < n" and "all_due prev ts" and "length ts = 2 * n"
  shows "spec_led_run (map Poll ts) (Blinking color (2 * n) True prev) =
         (BlinkIdle, concat (replicate (n - 1) [led_frame LED_OFF, led_frame color])
                     @ [led_frame LED_OFF, led_frame LED_OFF])"
  using assms
proof (induction n arbitrary: prev ts)
  case 0
  then show ?case by simp
next
  case (Suc n)
  from Suc.prems(3) obtain t1 t2 rest where ts: "ts = t1 # t2 # rest" and len: "length rest = 2 * n"
    by (cases ts; cases "tl ts") auto
  have d1: "ticks_diff t1 prev \<ge> led_blink_interval" and d2: "ticks_diff t2 t1 \<ge> led_blink_interval"
    and dr: "all_due t2 rest"
    using Suc.prems(2) ts by auto
  show ?case
  proof (cases "n = 0")
    case True
    then have "rest = []" using len by simp
    then show ?thesis using True ts d1 d2 by simp
  next
    case False
    then have pos: "0 < n" by simp
    note ih = Suc.IH [OF pos dr len, of]
    have "spec_led_run (map Poll ts) (Blinking color (2 * Suc n) True prev) =
          (case spec_led_run (map Poll rest) (Blinking color (2 * n) True t2) of
             (b2, out2) \<Rightarrow> (b2, [led_frame LED_OFF, led_frame color] @ out2))"
      using ts d1 d2 pos by (simp add: split_beta)
    also have "\<dots> = (BlinkIdle, [led_frame LED_OFF, led_frame color]
                        @ concat (replicate (n - 1) [led_frame LED_OFF, led_frame color])
                        @ [led_frame LED_OFF, led_frame LED_OFF])"
      by (simp add: ih)
    finally have r: "spec_led_run (map Poll ts) (Blinking color (2 * Suc n) True prev) =
          (BlinkIdle, [led_frame LED_OFF, led_frame color]
                        @ concat (replicate (n - 1) [led_frame LED_OFF, led_frame color])
                        @ [led_frame LED_OFF, led_frame LED_OFF])" .
    have c: "concat (replicate (Suc n - 1) [led_frame LED_OFF, led_frame color])
             = [led_frame LED_OFF, led_frame color]
                 @ concat (replicate (n - 1) [led_frame LED_OFF, led_frame color])"
      using pos by (cases n) simp_all
    show ?thesis unfolding c using r by simp
  qed
qed

text \<open>
  C7, as claimed: a direct \<open>set_led_color\<close> call cancels a blink sequence in flight.
  After \<open>start_led_blink\<close> for three red blinks, a call with green leaves the driver
  active, and the next poll switches the LED off as the second phase of the sequence.
\<close>

theorem set_led_color_does_not_cancel_blink:
  "led_blink_active (set_led_color LED_GREEN (start_led_blink 0 LED_RED 3 initial_state))
   \<and> uart_tx (update_led_blink 200 (set_led_color LED_GREEN (start_led_blink 0 LED_RED 3 initial_state)))
      = [uart_frame CMD_SET_LED_RGB (rgb_data LED_RED),
         uart_frame CMD_SET_LED_RGB (rgb_data LED_GREEN),
         uart_frame CMD_SET_LED_RGB (rgb_data LED_OFF)]"
  by (simp add: start_led_blink_def update_led_blink_def out_simps initial_state_def Let_def
      ticks_diff_def TICKS_PERIOD_def led_blink_interval_def)

text \<open>
  C7, amended. Over every series of polls, direct \<open>set_led_color\<close> calls and starts
  of blink sequences, from every state, the driver's variables and the frames written
  are those of the specified driver without the cancellation: a sequence started for
  \<open>n\<close> blinks has \<open>2 * n\<close> phases; each poll that comes a blink interval after the last
  toggle ends one phase, switching the LED off or on in turn, and the poll that ends
  the last phase forces the LED off and leaves the driver idle; other polls write
  nothing; a direct \<open>set_led_color\<close> call writes its frame and changes nothing of the
  sequence in flight, which only a new start replaces. In particular a sequence for
  \<open>n \<ge> 1\<close> blinks polled \<open>2 * n\<close> times, each poll due, runs to completion: after the
  colour at the start the frames are off and colour \<open>n - 1\<close> times, then off, and off
  again from the last poll, after which the driver is idle.
\<close>

theorem blink_runs_to_completion:
  "blink_of (fold led_step es s) = fst (spec_led_run es (blink_of s))
   \<and> uart_tx (fold led_step es s) = uart_tx s @ snd (spec_led_run es (blink_of s))
   \<and> (0 < n \<and> all_due now ts \<and> length ts = 2 * n \<longrightarrow>
        \<not> led_blink_active (fold led_step (map Poll ts) (start_led_blink now color (int n) s))
        \<and> uart_tx (fold led_step (map Poll ts) (start_led_blink now color (int n) s)) =
            uart_tx s @ led_frame color
              # concat (replicate (n - 1) [led_frame LED_OFF, led_frame color])
              @ [led_frame LED_OFF, led_frame LED_OFF])"
proof (intro conjI impI)
  show "blink_of (fold led_step es s) = fst (spec_led_run es (blink_of s))"
    using led_run_spec [of es s] by simp
  show "uart_tx (fold led_step es s) = uart_tx s @ snd (spec_led_run es (blink_of s))"
    using led_run_spec [of es s] by simp
next
  assume h: "0 < n \<and> all_due now ts \<and> length ts = 2 * n"
  let ?s0 = "start_led_blink now color (int n) s"
  have run: "spec_led_run (map Poll ts) (blink_of ?s0) =
             (BlinkIdle, concat (replicate (n - 1) [led_frame LED_OFF, led_frame color])
                         @ [led_frame LED_OFF, led_frame LED_OFF])"
    using h by (simp add: start_led_blink_spec spec_led_run_all_due)
  have "blink_of (fold led_step (map Poll ts) ?s0) = BlinkIdle"
    using led_run_spec [of "map Poll ts" ?s0] run by simp
  then show "\<not> led_blink_active (fold led_step (map Poll ts) ?s0)"
    by (simp add: blink_of_def split: if_splits)
  show "uart_tx (fold led_step (map Poll ts) ?s0) =
          uart_tx s @ led_frame color
            # concat (replicate (n - 1) [led_frame LED_OFF, led_frame color])
            @ [led_frame LED_OFF, led_frame LED_OFF]"
    using led_run_spec [of "map Poll ts" ?s0] run by (simp add: start_led_blink_spec)
qed

theorem blink_runs_to_completion_witness:
  "blink_of (fold led_step
      [Restart 0 LED_RED 3, Poll 100, Poll 200, DirectSet LED_GREEN, Poll 400, Poll 600,
       Restart 700 LED_ORANGE 1, Poll 800, Poll 900, Poll 1100, Poll 1300] initial_state)
     = BlinkIdle
   \<and> uart_tx (fold led_step
      [Restart 0 LED_RED 3, Poll 100, Poll 200, DirectSet LED_GREEN, Poll 400, Poll 600,
       Restart 700 LED_ORANGE 1, Poll 800, Poll 900, Poll 1100, Poll 1300] initial_state)
     = [led_frame LED_RED, led_frame LED_OFF, led_frame LED_GREEN, led_frame LED_RED,
        led_frame LED_OFF, led_frame LED_ORANGE, led_frame LED_OFF, led_frame LED_OFF]
   \<and> (0::nat) < 2 \<and> all_due 1073741800 [176, 376, 576, 776] \<and> length [176, 376, 576, 776 :: int] = 2 * 2
   \<and> \<not> led_blink_active (fold led_step (map Poll [176, 376, 576, 776])
                             (start_led_blink 1073741800 LED_RED (int 2) initial_state))
   \<and> uart_tx (fold led_step (map Poll [176, 376, 576, 776])
                             (start_led_blink 1073741800 LED_RED (int 2) initial_state))
     = [led_frame LED_RED, led_frame LED_OFF, led_frame LED_RED, led_frame LED_OFF,
        led_frame LED_OFF]"
proof -
  let ?es = "[Restart 0 LED_RED 3, Poll 100, Poll 200, DirectSet LED_GREEN, Poll 400, Poll 600,
       Restart 700 LED_ORANGE 1, Poll 800, Poll 900, Poll 1100, Poll 1300]"
  have due: "all_due 1073741800 [176, 376, 576, 776]"
    by (simp add: ticks_diff_def TICKS_PERIOD_def led_blink_interval_def)
  have idle: "blink_of initial_state = BlinkIdle"
    by (simp add: blink_of_def initial_state_def)
  have run: "spec_led_run ?es BlinkIdle =
      (BlinkIdle, [led_frame LED_RED, led_frame LED_OFF, led_frame LED_GREEN, led_frame LED_RED,
        led_frame LED_OFF, led_frame LED_ORANGE, led_frame LED_OFF, led_frame LED_OFF])"
    by (simp add: ticks_diff_def TICKS_PERIOD_def led_blink_interval_def)
  have tx: "uart_tx initial_state = []" by (simp add: initial_state_def)
  note th = blink_runs_to_completion [of ?es initial_state 2 1073741800 "[176, 376, 576, 776]" LED_RED]
  show ?thesis
    using th due idle run tx by simp
qed

end
